theory Spec2Isabelle
  imports Complex_Main "HOL-Library.Word"
begin

section \<open>Clarity Layer: capture, shader pipeline and overlay window\<close>

text \<open>
  A shallow embedding of \<^verbatim>\<open>src/overlay/ShaderPipeline.cpp\<close>,
  \<^verbatim>\<open>src/overlay/CaptureManager.cpp\<close>, \<^verbatim>\<open>src/overlay/OverlayWindow.cpp\<close> and of the
  colour inversion pixel shader. Member variables keep their names. Every function takes the
  object it is a member of and returns the updated object; what a call does to the GPU, to
  the window system or to a registered callback is returned as a list of calls, in the order
  in which the code issues them.
\<close>

subsection \<open>HRESULT, COM pointers and the Direct3D device\<close>

type_synonym HRESULT = "32 word"

definition S_OK :: HRESULT where
  "S_OK = 0"

definition E_FAIL :: HRESULT where
  "E_FAIL = 0x80004005"

definition DXGI_ERROR_DEVICE_REMOVED :: HRESULT where
  "DXGI_ERROR_DEVICE_REMOVED = 0x887A0005"

definition DXGI_ERROR_DEVICE_RESET :: HRESULT where
  "DXGI_ERROR_DEVICE_RESET = 0x887A0007"

text \<open>The macros \<^verbatim>\<open>FAILED\<close> and \<^verbatim>\<open>SUCCEEDED\<close>: an HRESULT is a signed 32-bit value,
  negative on failure.\<close>

definition FAILED :: "HRESULT \<Rightarrow> bool" where
  "FAILED hr = (sint hr < 0)"

definition SUCCEEDED :: "HRESULT \<Rightarrow> bool" where
  "SUCCEEDED hr = (0 \<le> sint hr)"

text \<open>A COM pointer is the identity of the object it points to, or \<open>None\<close> for
  \<^verbatim>\<open>nullptr\<close>; comparing two pointers compares these.\<close>

type_synonym handle = nat
type_synonym pointer = "handle option"

text \<open>The device as the code sees it: \<open>results\<close> holds the HRESULTs that the coming calls
  will return, in call order (\<^verbatim>\<open>S_OK\<close> once the list is used up), and every object created
  gets an identity that no earlier object has.\<close>

record Device =
  next_handle :: handle
  results :: "HRESULT list"

definition next_result :: "Device \<Rightarrow> HRESULT \<times> Device" where
  "next_result d =
     (case results d of
        [] \<Rightarrow> (S_OK, d)
      | hr # rest \<Rightarrow> (hr, d\<lparr>results := rest\<rparr>))"

text \<open>Any \<^verbatim>\<open>Create...\<close> call with an out pointer: the pointer is set exactly when the call
  succeeds.\<close>

definition create_object :: "Device \<Rightarrow> HRESULT \<times> pointer \<times> Device" where
  "create_object d =
     (case next_result d of (hr, d') \<Rightarrow>
        if FAILED hr then (hr, None, d')
        else (hr, Some (next_handle d'), d'\<lparr>next_handle := Suc (next_handle d')\<rparr>))"

text \<open>A second out pointer of a call that has succeeded.\<close>

definition fresh_object :: "Device \<Rightarrow> pointer \<times> Device" where
  "fresh_object d = (Some (next_handle d), d\<lparr>next_handle := Suc (next_handle d)\<rparr>)"

text \<open>A 2D texture with the part of its \<^verbatim>\<open>D3D11_TEXTURE2D_DESC\<close> that the code reads.\<close>

record Texture2D =
  tex_handle :: handle
  Width :: "32 word"
  Height :: "32 word"

definition CreateTexture2D ::
  "Device \<Rightarrow> 32 word \<Rightarrow> 32 word \<Rightarrow> HRESULT \<times> Texture2D option \<times> Device" where
  "CreateTexture2D d w h =
     (case create_object d of (hr, p, d') \<Rightarrow>
        (hr, map_option (\<lambda>i. \<lparr>tex_handle = i, Width = w, Height = h\<rparr>) p, d'))"

subsection \<open>C++ \<^verbatim>\<open>float\<close> values, their comparison and \<^verbatim>\<open>std::clamp\<close>\<close>

text \<open>A \<^verbatim>\<open>float\<close> is a NaN, an infinity or a finite number. The setters only compare and
  store, so the finite values are kept as the real numbers they denote. \<open>flt_less\<close> is
  \<^verbatim>\<open>operator<\<close>: every comparison with a NaN is false.\<close>

datatype float = NaN | NegInf | Fin real | PosInf

fun flt_less :: "float \<Rightarrow> float \<Rightarrow> bool" where
  "flt_less (Fin a) (Fin b) = (a < b)"
| "flt_less NegInf (Fin b) = True"
| "flt_less NegInf PosInf = True"
| "flt_less (Fin a) PosInf = True"
| "flt_less _ _ = False"

text \<open>\<^verbatim>\<open>std::clamp(v, lo, hi)\<close> is \<^verbatim>\<open>(v < lo) ? lo : (hi < v) ? hi : v\<close>.\<close>

definition std_clamp :: "float \<Rightarrow> float \<Rightarrow> float \<Rightarrow> float" where
  "std_clamp v lo hi = (if flt_less v lo then lo else if flt_less hi v then hi else v)"



subsection \<open>ShaderPipeline\<close>



record TransformParams =
  contrast :: float
  brightness :: float
  gamma :: float
  saturation :: float
  invertMode :: int
  edgeStrength :: float

text \<open>The default member initialisers of \<^verbatim>\<open>struct TransformParams\<close>.\<close>

definition TransformParams_default :: TransformParams where
  "TransformParams_default =
     \<lparr>contrast = Fin 1, brightness = Fin 0, gamma = Fin 1, saturation = Fin 1,
      invertMode = 0, edgeStrength = Fin 0\<rparr>"

record ShaderPipeline =
  m_device :: pointer
  m_ready :: bool
  m_params :: TransformParams
  m_paramsDirty :: bool
  m_vertexShader :: pointer
  m_contrastShader :: pointer
  m_invertShader :: pointer
  m_edgeShader :: pointer
  m_passthroughShader :: pointer
  m_inputLayout :: pointer
  m_constantBuffer :: pointer
  m_intermediateTexture :: "Texture2D option"
  m_intermediateRTV :: pointer
  m_intermediateSRV :: pointer
  m_outputTexture :: "Texture2D option"
  m_outputRTV :: pointer
  m_outputSRV :: pointer
  m_outputWidth :: "32 word"
  m_outputHeight :: "32 word"
  m_vertexBuffer :: pointer
  m_indexBuffer :: pointer
  m_sampler :: pointer

text \<open>The object after \<^verbatim>\<open>ShaderPipeline::ShaderPipeline() = default\<close>.\<close>

definition ShaderPipeline_new :: ShaderPipeline where
  "ShaderPipeline_new =
     \<lparr>m_device = None, m_ready = False, m_params = TransformParams_default,
      m_paramsDirty = True, m_vertexShader = None, m_contrastShader = None,
      m_invertShader = None, m_edgeShader = None, m_passthroughShader = None,
      m_inputLayout = None, m_constantBuffer = None,
      m_intermediateTexture = None, m_intermediateRTV = None, m_intermediateSRV = None,
      m_outputTexture = None, m_outputRTV = None, m_outputSRV = None,
      m_outputWidth = 0, m_outputHeight = 0,
      m_vertexBuffer = None, m_indexBuffer = None, m_sampler = None\<rparr>"

subsubsection \<open>The parameter setters\<close>






definition SetEdgeStrength :: "ShaderPipeline \<Rightarrow> float \<Rightarrow> ShaderPipeline" where
  "SetEdgeStrength s e =
     s\<lparr>m_params := (m_params s)\<lparr>edgeStrength := std_clamp e (Fin 0) (Fin 1)\<rparr>,
       m_paramsDirty := True\<rparr>"






subsubsection \<open>Initialisation\<close>

text \<open>\<open>files\<close> is the set of names of the compiled shader files that can be opened under
  \<^verbatim>\<open>m_shadersPath\<close>.\<close>

definition LoadVertexShader ::
  "Device \<Rightarrow> string set \<Rightarrow> ShaderPipeline \<Rightarrow> string \<Rightarrow> bool \<times> ShaderPipeline \<times> Device" where
  "LoadVertexShader d files s filename =
     (if filename \<notin> files then (False, s, d)
      else case create_object d of (hr, vs, d1) \<Rightarrow>
        let s1 = s\<lparr>m_vertexShader := vs\<rparr> in
        if FAILED hr then (False, s1, d1)
        else case create_object d1 of (hr2, layout, d2) \<Rightarrow>
          let s2 = s1\<lparr>m_inputLayout := layout\<rparr> in
          if FAILED hr2 then (False, s2, d2) else (True, s2, d2))"

text \<open>\<open>shader\<close> is the member passed by reference; the result holds its new value.\<close>

definition LoadPixelShader ::
  "Device \<Rightarrow> string set \<Rightarrow> string \<Rightarrow> pointer \<Rightarrow> bool \<times> pointer \<times> Device" where
  "LoadPixelShader d files filename shader =
     (if filename \<notin> files then (False, shader, d)
      else case create_object d of (hr, ps, d1) \<Rightarrow>
        if FAILED hr then (False, ps, d1) else (True, ps, d1))"

definition CreateConstantBuffer :: "Device \<Rightarrow> ShaderPipeline \<Rightarrow> bool \<times> ShaderPipeline \<times> Device" where
  "CreateConstantBuffer d s =
     (case create_object d of (hr, buf, d1) \<Rightarrow>
        let s1 = s\<lparr>m_constantBuffer := buf\<rparr> in
        if FAILED hr then (False, s1, d1) else (True, s1, d1))"

definition CreateFullscreenQuad :: "Device \<Rightarrow> ShaderPipeline \<Rightarrow> bool \<times> ShaderPipeline \<times> Device" where
  "CreateFullscreenQuad d s =
     (case create_object d of (hr, vb, d1) \<Rightarrow>
        let s1 = s\<lparr>m_vertexBuffer := vb\<rparr> in
        if FAILED hr then (False, s1, d1)
        else case create_object d1 of (hr2, ib, d2) \<Rightarrow>
          let s2 = s1\<lparr>m_indexBuffer := ib\<rparr> in
          if FAILED hr2 then (False, s2, d2)
          else case create_object d2 of (hr3, smp, d3) \<Rightarrow>
            let s3 = s2\<lparr>m_sampler := smp\<rparr> in
            if FAILED hr3 then (False, s3, d3) else (True, s3, d3))"

text \<open>\<^verbatim>\<open>Initialize(device, shadersPath)\<close>; \<open>device\<close> is the pointer passed in.\<close>

definition Initialize ::
  "Device \<Rightarrow> string set \<Rightarrow> ShaderPipeline \<Rightarrow> pointer \<Rightarrow> bool \<times> ShaderPipeline \<times> Device" where
  "Initialize d files s device =
     (if device = None then (False, s, d)
      else
        let s0 = s\<lparr>m_device := device\<rparr> in
        case LoadVertexShader d files s0 ''fullscreen_vs.cso'' of (ok1, s1, d1) \<Rightarrow>
        if \<not> ok1 then (False, s1, d1)
        else case LoadPixelShader d1 files ''contrast.cso'' (m_contrastShader s1) of (ok2, p2, d2) \<Rightarrow>
        let s2 = s1\<lparr>m_contrastShader := p2\<rparr> in
        if \<not> ok2 then (False, s2, d2)
        else case LoadPixelShader d2 files ''invert.cso'' (m_invertShader s2) of (ok3, p3, d3) \<Rightarrow>
        let s3 = s2\<lparr>m_invertShader := p3\<rparr> in
        if \<not> ok3 then (False, s3, d3)
        else case LoadPixelShader d3 files ''edge_enhance.cso'' (m_edgeShader s3) of (ok4, p4, d4) \<Rightarrow>
        let s4 = s3\<lparr>m_edgeShader := p4\<rparr> in
        case LoadPixelShader d4 files ''passthrough.cso'' (m_passthroughShader s4) of (ok5, p5, d5) \<Rightarrow>
        let s5 = s4\<lparr>m_passthroughShader := p5\<rparr> in
        if \<not> ok5 then (False, s5, d5)
        else case CreateConstantBuffer d5 s5 of (ok6, s6, d6) \<Rightarrow>
        if \<not> ok6 then (False, s6, d6)
        else case CreateFullscreenQuad d6 s6 of (ok7, s7, d7) \<Rightarrow>
        if \<not> ok7 then (False, s7, d7)
        else (True, s7\<lparr>m_ready := True\<rparr>, d7))"

subsubsection \<open>Processing a frame\<close>

text \<open>The four pixel shader members, and what \<^verbatim>\<open>Process\<close> asks of the device and the
  immediate context: a call of \<^verbatim>\<open>CreateIntermediateTextures(width, height)\<close>, the upload
  of the parameters into the constant buffer, and one \<^verbatim>\<open>RenderPass\<close> (its input view, its
  render target, the shader member it binds, the viewport size).\<close>

datatype PixelShader = ContrastShader | InvertShader | EdgeShader | PassthroughShader

datatype GpuCall =
    CreateIntermediateTexturesCall "32 word" "32 word"
  | ParamsUploaded TransformParams
  | RenderPassCall pointer pointer PixelShader "32 word" "32 word"

definition CreateIntermediateTextures ::
  "Device \<Rightarrow> ShaderPipeline \<Rightarrow> 32 word \<Rightarrow> 32 word \<Rightarrow> bool \<times> ShaderPipeline \<times> Device" where
  "CreateIntermediateTextures d s width height =
     (let s0 = s\<lparr>m_outputWidth := width, m_outputHeight := height,
                 m_intermediateTexture := None, m_intermediateRTV := None,
                 m_intermediateSRV := None, m_outputTexture := None,
                 m_outputRTV := None, m_outputSRV := None\<rparr> in
      case CreateTexture2D d width height of (hr1, tex1, d1) \<Rightarrow>
      let s1 = s0\<lparr>m_intermediateTexture := tex1\<rparr> in
      if FAILED hr1 then (False, s1, d1)
      else case create_object d1 of (hr2, rtv1, d2) \<Rightarrow>
      let s2 = s1\<lparr>m_intermediateRTV := rtv1\<rparr> in
      if FAILED hr2 then (False, s2, d2)
      else case create_object d2 of (hr3, srv1, d3) \<Rightarrow>
      let s3 = s2\<lparr>m_intermediateSRV := srv1\<rparr> in
      if FAILED hr3 then (False, s3, d3)
      else case CreateTexture2D d3 width height of (hr4, tex2, d4) \<Rightarrow>
      let s4 = s3\<lparr>m_outputTexture := tex2\<rparr> in
      if FAILED hr4 then (False, s4, d4)
      else case create_object d4 of (hr5, rtv2, d5) \<Rightarrow>
      let s5 = s4\<lparr>m_outputRTV := rtv2\<rparr> in
      if FAILED hr5 then (False, s5, d5)
      else case create_object d5 of (hr6, srv2, d6) \<Rightarrow>
      let s6 = s5\<lparr>m_outputSRV := srv2\<rparr> in
      if FAILED hr6 then (False, s6, d6) else (True, s6, d6))"

definition UpdateParameters ::
  "Device \<Rightarrow> ShaderPipeline \<Rightarrow> ShaderPipeline \<times> Device \<times> GpuCall list" where
  "UpdateParameters d s =
     (if m_constantBuffer s = None then (s, d, [])
      else case next_result d of (hr, d1) \<Rightarrow>
        if SUCCEEDED hr then (s\<lparr>m_paramsDirty := False\<rparr>, d1, [ParamsUploaded (m_params s)])
        else (s, d1, []))"

definition RenderPass ::
  "pointer \<Rightarrow> pointer \<Rightarrow> PixelShader \<Rightarrow> 32 word \<Rightarrow> 32 word \<Rightarrow> GpuCall list" where
  "RenderPass input output shader width height =
     [RenderPassCall input output shader width height]"

text \<open>The multi-pass part of \<^verbatim>\<open>Process\<close>, from the comment \<^verbatim>\<open>Multi-pass rendering\<close> to its
  end; \<open>inputSRV\<close> is the view created for the input texture. \<open>copy\<close> is the last
  \<^verbatim>\<open>if\<close> of the function, which both paths that do not return early reach.\<close>

definition Process_passes ::
  "ShaderPipeline \<Rightarrow> pointer \<Rightarrow> Texture2D option \<times> GpuCall list" where
  "Process_passes s inputSRV =
     (let w = m_outputWidth s; h = m_outputHeight s;
          pass1 = RenderPass inputSRV (m_intermediateRTV s) ContrastShader w h;
          afterPass1 = m_intermediateSRV s;
          pass2 = (if invertMode (m_params s) \<noteq> 0
                   then RenderPass afterPass1 (m_outputRTV s) InvertShader w h else []);
          currentInput = (if invertMode (m_params s) \<noteq> 0 then m_outputSRV s else afterPass1);
          copy = (if currentInput = m_intermediateSRV s
                  then RenderPass currentInput (m_outputRTV s) PassthroughShader w h else [])
      in
        if flt_less (Fin 0) (edgeStrength (m_params s)) \<and> m_edgeShader s \<noteq> None then
          let finalTarget = (if currentInput = m_outputSRV s
                             then m_intermediateRTV s else m_outputRTV s);
              pass3 = RenderPass currentInput finalTarget EdgeShader w h
          in
            if finalTarget = m_intermediateRTV s
            then (m_intermediateTexture s, pass1 @ pass2 @ pass3)
            else (m_outputTexture s, pass1 @ pass2 @ pass3 @ copy)
        else (m_outputTexture s, pass1 @ pass2 @ copy))"

text \<open>\<^verbatim>\<open>Process(input)\<close> returns the texture pointer, the pipeline, the device and the calls
  made.\<close>

definition Process ::
  "Device \<Rightarrow> ShaderPipeline \<Rightarrow> Texture2D option \<Rightarrow>
     Texture2D option \<times> ShaderPipeline \<times> Device \<times> GpuCall list" where
  "Process d s input =
     (case input of
        None \<Rightarrow> (input, s, d, [])
      | Some inputDesc \<Rightarrow>
          if \<not> m_ready s then (input, s, d, [])
          else
            case (if Width inputDesc \<noteq> m_outputWidth s \<or> Height inputDesc \<noteq> m_outputHeight s
                  then (case CreateIntermediateTextures d s (Width inputDesc) (Height inputDesc)
                        of (ok, s', d') \<Rightarrow>
                          (ok, s', d',
                           [CreateIntermediateTexturesCall (Width inputDesc) (Height inputDesc)]))
                  else (True, s, d, []))
            of (ok, s1, d1, calls1) \<Rightarrow>
            if \<not> ok then (input, s1, d1, calls1)
            else
              case (if m_paramsDirty s1 then UpdateParameters d1 s1 else (s1, d1, []))
              of (s2, d2, calls2) \<Rightarrow>
              case create_object d2 of (hr, inputSRV, d3) \<Rightarrow>
              if FAILED hr then (input, s2, d3, calls1 @ calls2)
              else
                case Process_passes s2 inputSRV of (output, calls3) \<Rightarrow>
                  (output, s2, d3, calls1 @ calls2 @ calls3))"

text \<open>Reading the calls of one \<^verbatim>\<open>Process\<close>: the shaders of its render passes in order,
  and the number of calls of \<^verbatim>\<open>CreateIntermediateTextures\<close>.\<close>

fun passes :: "GpuCall list \<Rightarrow> PixelShader list" where
  "passes [] = []"
| "passes (RenderPassCall i out sh w h # cs) = sh # passes cs"
| "passes (c # cs) = passes cs"


subsection \<open>CaptureManager\<close>

type_synonym HMONITOR = nat

record MonitorInfo =
  handle :: HMONITOR
  isPrimary :: bool
  dpi :: "32 word"

record MonitorCapture =
  monitor :: HMONITOR
  item :: pointer
  framePool :: pointer
  session :: pointer
  winrtDevice :: pointer
  frameArrivedToken :: "64 word"

text \<open>A \<^verbatim>\<open>std::function\<close> is the identity of its target, or \<open>None\<close> when it is empty.\<close>

type_synonym FrameCallback = nat

record CaptureManager =
  m_captures :: "MonitorCapture list"
  m_monitors :: "MonitorInfo list"
  m_frameCallback :: "FrameCallback option"
  m_running :: bool

definition CaptureManager_new :: CaptureManager where
  "CaptureManager_new =
     \<lparr>m_captures = [], m_monitors = [], m_frameCallback = None, m_running = False\<rparr>"

text \<open>What the capture manager asks of the capture API, and the two log lines that
  \<^verbatim>\<open>CreateCaptureForMonitor\<close> and \<^verbatim>\<open>Start\<close> write about one monitor.\<close>

datatype CaptureCall =
    FrameArrivedSubscribed pointer "64 word"
  | FrameArrivedRevoked pointer "64 word"
  | StartCaptureCall pointer
  | SessionClose pointer
  | FramePoolClose pointer
  | LogCreatedCapture HMONITOR
  | LogFailedCapture HMONITOR

definition IsGraphicsCaptureAvailable :: "Device \<Rightarrow> bool \<times> Device" where
  "IsGraphicsCaptureAvailable d = (case next_result d of (hr, d1) \<Rightarrow> (SUCCEEDED hr, d1))"

definition CreateWinRTDevice :: "Device \<Rightarrow> pointer \<times> Device" where
  "CreateWinRTDevice d =
     (case next_result d of (hr, d1) \<Rightarrow>
        if FAILED hr then (None, d1)
        else case create_object d1 of (hr2, inspectable, d2) \<Rightarrow>
          if FAILED hr2 then (None, d2) else (inspectable, d2))"

text \<open>\<^verbatim>\<open>CreateCaptureForMonitor\<close>: a WinRT call that fails throws
  \<^verbatim>\<open>winrt::hresult_error\<close>, which the function catches to return false; the local
  \<^verbatim>\<open>capture\<close> is then dropped. The exception of \<^verbatim>\<open>IsBorderRequired\<close> is swallowed.\<close>

definition CreateCaptureForMonitor ::
  "Device \<Rightarrow> CaptureManager \<Rightarrow> HMONITOR \<Rightarrow> bool \<times> CaptureManager \<times> Device \<times> CaptureCall list" where
  "CreateCaptureForMonitor d s mon =
     (case CreateWinRTDevice d of (dev, d1) \<Rightarrow>
      if dev = None then (False, s, d1, [])
      else case create_object d1 of (hr, it, d2) \<Rightarrow>
      if FAILED hr \<or> it = None then (False, s, d2, [])
      else case create_object d2 of (hrPool, pool, d3) \<Rightarrow>
      if FAILED hrPool then (False, s, d3, [])
      else if pool = None then (False, s, d3, [])
      else case create_object d3 of (hrTok, tok, d4) \<Rightarrow>
      if FAILED hrTok then (False, s, d4, [])
      else
        let token = (case tok of None \<Rightarrow> 0 | Some t \<Rightarrow> word_of_nat t);
            subscribed = [FrameArrivedSubscribed pool token] in
        case create_object d4 of (hrSession, sess, d5) \<Rightarrow>
        if FAILED hrSession then (False, s, d5, subscribed)
        else case next_result d5 of (hrCursor, d6) \<Rightarrow>
        if FAILED hrCursor then (False, s, d6, subscribed)
        else case next_result d6 of (hrBorder, d7) \<Rightarrow>
        case next_result d7 of (hrStart, d8) \<Rightarrow>
        if FAILED hrStart then (False, s, d8, subscribed)
        else
          let capture = \<lparr>monitor = mon, item = it, framePool = pool, session = sess,
                         winrtDevice = dev, frameArrivedToken = token\<rparr>
          in (True, s\<lparr>m_captures := m_captures s @ [capture]\<rparr>, d8,
              subscribed @ [StartCaptureCall sess, LogCreatedCapture mon]))"

text \<open>The loop of \<^verbatim>\<open>Start\<close> over \<^verbatim>\<open>m_monitors\<close>.\<close>

fun create_captures ::
  "Device \<Rightarrow> CaptureManager \<Rightarrow> MonitorInfo list \<Rightarrow> CaptureManager \<times> Device \<times> CaptureCall list" where
  "create_captures d s [] = (s, d, [])"
| "create_captures d s (m # ms) =
     (case CreateCaptureForMonitor d s (handle m) of (ok, s1, d1, calls1) \<Rightarrow>
      case create_captures d1 s1 ms of (s2, d2, calls2) \<Rightarrow>
        (s2, d2, calls1 @ (if \<not> ok then [LogFailedCapture (handle m)] else []) @ calls2))"

definition Start :: "Device \<Rightarrow> CaptureManager \<Rightarrow> bool \<times> CaptureManager \<times> Device \<times> CaptureCall list" where
  "Start d s =
     (if m_running s then (True, s, d, [])
      else case IsGraphicsCaptureAvailable d of (available, d1) \<Rightarrow>
        if \<not> available then (False, s, d1, [])
        else case create_captures d1 s (m_monitors s) of (s2, d2, calls) \<Rightarrow>
          (m_captures s2 \<noteq> [], s2\<lparr>m_running := True\<rparr>, d2, calls))"

definition IsRunning :: "CaptureManager \<Rightarrow> bool" where
  "IsRunning s = m_running s"

text \<open>The body of the loop of \<^verbatim>\<open>Stop\<close> for one capture, and \<^verbatim>\<open>Stop\<close>. The
  \<^verbatim>\<open>winrt::event_token\<close> converts to true when its value is not zero.\<close>

definition Stop_capture :: "MonitorCapture \<Rightarrow> CaptureCall list" where
  "Stop_capture capture =
     (if framePool capture \<noteq> None \<and> frameArrivedToken capture \<noteq> 0
      then [FrameArrivedRevoked (framePool capture) (frameArrivedToken capture)] else []) @
     (if session capture \<noteq> None then [SessionClose (session capture)] else []) @
     (if framePool capture \<noteq> None then [FramePoolClose (framePool capture)] else [])"

definition Stop :: "CaptureManager \<Rightarrow> CaptureManager \<times> CaptureCall list" where
  "Stop s =
     (if \<not> m_running s then (s, [])
      else (s\<lparr>m_captures := [], m_running := False\<rparr>,
            concat (map Stop_capture (m_captures s))))"

definition SetFrameCallback :: "CaptureManager \<Rightarrow> FrameCallback option \<Rightarrow> CaptureManager" where
  "SetFrameCallback s callback = s\<lparr>m_frameCallback := callback\<rparr>"

text \<open>\<open>os_monitors\<close> are the monitors that \<^verbatim>\<open>EnumDisplayMonitors\<close> reports and for which
  \<^verbatim>\<open>GetMonitorInfoW\<close> succeeds.\<close>

definition EnumerateMonitors :: "MonitorInfo list \<Rightarrow> CaptureManager \<Rightarrow> CaptureManager" where
  "EnumerateMonitors os_monitors s = s\<lparr>m_monitors := os_monitors\<rparr>"

definition Restart ::
  "Device \<Rightarrow> MonitorInfo list \<Rightarrow> CaptureManager \<Rightarrow> CaptureManager \<times> Device \<times> CaptureCall list" where
  "Restart d os_monitors s =
     (case Stop s of (s1, calls1) \<Rightarrow>
      case Start d (EnumerateMonitors os_monitors s1) of (ok, s2, d2, calls2) \<Rightarrow>
        (s2, d2, calls1 @ calls2))"

text \<open>What the frame pool hands to the handler of one frame-arrived event:
  \<^verbatim>\<open>TryGetNextFrame\<close> may return no frame, the frame no surface, the surface no texture, a
  call may throw \<^verbatim>\<open>hresult_error\<close>, or there is a texture.\<close>

datatype ArrivedFrame = NoFrame | NoSurface | NoTexture | FrameError | FrameTexture Texture2D

text \<open>\<^verbatim>\<open>OnFrameArrived(sender, args)\<close> changes no member; the result lists the invocations
  of the frame callback, each with the callback invoked and the texture passed.\<close>

definition OnFrameArrived ::
  "CaptureManager \<Rightarrow> pointer \<Rightarrow> ArrivedFrame \<Rightarrow> (FrameCallback \<times> Texture2D) list" where
  "OnFrameArrived s sender frame =
     (if \<not> m_running s then []
      else case frame of
          FrameTexture texture \<Rightarrow>
            (case m_frameCallback s of
               Some callback \<Rightarrow> [(callback, texture)]
             | None \<Rightarrow> [])
        | _ \<Rightarrow> [])"

text \<open>Reading the calls of \<^verbatim>\<open>Start\<close> and \<^verbatim>\<open>Stop\<close>: the monitors for which a capture
  session was created, the monitors that were tried, and whether a call tears a session or
  a frame pool down.\<close>

fun created_monitors :: "CaptureCall list \<Rightarrow> HMONITOR list" where
  "created_monitors [] = []"
| "created_monitors (LogCreatedCapture m # cs) = m # created_monitors cs"
| "created_monitors (c # cs) = created_monitors cs"

fun tried_monitors :: "CaptureCall list \<Rightarrow> HMONITOR list" where
  "tried_monitors [] = []"
| "tried_monitors (LogCreatedCapture m # cs) = m # tried_monitors cs"
| "tried_monitors (LogFailedCapture m # cs) = m # tried_monitors cs"
| "tried_monitors (c # cs) = tried_monitors cs"




subsection \<open>OverlayWindow\<close>

























subsection \<open>The colour inversion pixel shader\<close>

text \<open>The shader computes in \<^verbatim>\<open>float\<close>; a texel sampled from a
  \<^verbatim>\<open>B8G8R8A8_UNORM\<close> texture is a finite number. A shader value is the real number it
  denotes, and \<open>rnd\<close> is the rounding of the result of one arithmetic operation (or of a
  literal) to a \<^verbatim>\<open>float\<close>; comparisons, \<^verbatim>\<open>min\<close> and \<^verbatim>\<open>max\<close> do not round. A
  \<^verbatim>\<open>float3\<close> is a triple and a \<^verbatim>\<open>float4\<close> a quadruple, \<open>(r, g, b, a)\<close>.\<close>

type_synonym float3 = "real \<times> real \<times> real"
type_synonym float4 = "real \<times> real \<times> real \<times> real"

definition RGBtoHSL :: "(real \<Rightarrow> real) \<Rightarrow> float3 \<Rightarrow> float3" where
  "RGBtoHSL rnd rgb =
     (case rgb of (r, g, b) \<Rightarrow>
        let maxC = max (max r g) b;
            minC = min (min r g) b;
            delta = rnd (maxC - minC);
            L = rnd (rnd (maxC + minC) * (1 / 2)) in
        if delta > rnd (1 / 10000) then
          let S = (if L < 1 / 2 then rnd (delta / rnd (maxC + minC))
                   else rnd (delta / rnd (rnd (2 - maxC) - minC)));
              H = (if r = maxC then rnd (rnd (rnd (g - b) / delta) + (if g < b then 6 else 0))
                   else if g = maxC then rnd (rnd (rnd (b - r) / delta) + 2)
                   else rnd (rnd (rnd (r - g) / delta) + 4))
          in (rnd (H / 6), S, L)
        else (0, 0, L))"

definition HueToRGB :: "(real \<Rightarrow> real) \<Rightarrow> real \<Rightarrow> real \<Rightarrow> real \<Rightarrow> real" where
  "HueToRGB rnd p q t =
     (let t1 = (if t < 0 then rnd (t + 1) else t);
          t2 = (if t1 > 1 then rnd (t1 - 1) else t1) in
      if t2 < rnd (1 / 6) then rnd (p + rnd (rnd (rnd (q - p) * 6) * t2))
      else if t2 < 1 / 2 then q
      else if t2 < rnd (2 / 3) then rnd (p + rnd (rnd (rnd (q - p) * rnd (rnd (2 / 3) - t2)) * 6))
      else p)"

definition HSLtoRGB :: "(real \<Rightarrow> real) \<Rightarrow> float3 \<Rightarrow> float3" where
  "HSLtoRGB rnd hsl =
     (case hsl of (H, S, L) \<Rightarrow>
        if S < rnd (1 / 10000) then (L, L, L)
        else
          let q = (if L < 1 / 2 then rnd (L * rnd (1 + S)) else rnd (rnd (L + S) - rnd (L * S)));
              p = rnd (rnd (2 * L) - q)
          in (HueToRGB rnd p q (rnd (H + rnd (1 / 3))),
              HueToRGB rnd p q H,
              HueToRGB rnd p q (rnd (H - rnd (1 / 3)))))"

text \<open>\<^verbatim>\<open>main\<close> of the inversion shader; \<open>color\<close> is the texel that
  \<^verbatim>\<open>inputTex.Sample\<close> returns, \<open>mode\<close> the \<^verbatim>\<open>invertMode\<close> of the constant buffer.\<close>

definition invert_main :: "(real \<Rightarrow> real) \<Rightarrow> int \<Rightarrow> float4 \<Rightarrow> float4" where
  "invert_main rnd mode color =
     (case color of (r, g, b, a) \<Rightarrow>
        if mode = 1 then (rnd (1 - r), rnd (1 - g), rnd (1 - b), a)
        else if mode = 2 then
          (case RGBtoHSL rnd (r, g, b) of (H, S, L) \<Rightarrow>
           case HSLtoRGB rnd (H, S, rnd (1 - L)) of (r', g', b') \<Rightarrow> (r', g', b', a))
        else color)"

text \<open>Rounding to the nearest multiple of \<open>2\<^sup>-\<^sup>2\<^sup>4\<close>, which is how binary32 rounds the
  numbers between 1 and 2, and the largest distance between two colours in one channel.\<close>

definition round24 :: "real \<Rightarrow> real" where
  "round24 x = real_of_int (round (x * 16777216)) / 16777216"

definition channel_distance :: "float4 \<Rightarrow> float4 \<Rightarrow> real" where
  "channel_distance c c' =
     (case c of (r, g, b, a) \<Rightarrow> case c' of (r', g', b', a') \<Rightarrow>
        max (max \<bar>r - r'\<bar> \<bar>g - g'\<bar>) (max \<bar>b - b'\<bar> \<bar>a - a'\<bar>))"

subsection \<open>Example runs\<close>

text \<open>A device on which every call succeeds, the five compiled shaders, and a captured
  frame of 1920 by 1080 pixels.\<close>

definition example_device :: Device where
  "example_device = \<lparr>next_handle = 1, results = []\<rparr>"

definition all_shader_files :: "string set" where
  "all_shader_files =
     {''fullscreen_vs.cso'', ''contrast.cso'', ''invert.cso'', ''edge_enhance.cso'',
      ''passthrough.cso''}"

definition example_frame :: Texture2D where
  "example_frame = \<lparr>tex_handle = 0, Width = 1920, Height = 1080\<rparr>"

text \<open>The pipeline after a successful \<^verbatim>\<open>Initialize\<close>, the device it leaves, the pipeline
  after an \<^verbatim>\<open>Initialize\<close> that does not find \<^verbatim>\<open>invert.cso\<close>, and the pipeline and the
  device after the first frame.\<close>

definition ready_pipeline :: ShaderPipeline where
  "ready_pipeline =
     fst (snd (Initialize example_device all_shader_files ShaderPipeline_new (Some 0)))"

definition ready_device :: Device where
  "ready_device =
     snd (snd (Initialize example_device all_shader_files ShaderPipeline_new (Some 0)))"

definition unready_pipeline :: ShaderPipeline where
  "unready_pipeline =
     fst (snd (Initialize example_device (all_shader_files - {''invert.cso''})
                 ShaderPipeline_new (Some 0)))"

definition sized_pipeline :: ShaderPipeline where
  "sized_pipeline = fst (snd (Process ready_device ready_pipeline (Some example_frame)))"


text \<open>A capture manager with three monitors and a frame callback; a device on which the
  capture item of the second monitor cannot be created; a device on which no WinRT device
  can be created; and the manager and the device after \<^verbatim>\<open>Start\<close> on each.\<close>

definition three_monitors :: "MonitorInfo list" where
  "three_monitors =
     [\<lparr>handle = 101, isPrimary = True, dpi = 96\<rparr>,
      \<lparr>handle = 102, isPrimary = False, dpi = 96\<rparr>,
      \<lparr>handle = 103, isPrimary = False, dpi = 144\<rparr>]"

definition three_monitor_manager :: CaptureManager where
  "three_monitor_manager =
     SetFrameCallback (EnumerateMonitors three_monitors CaptureManager_new) (Some 7)"

definition second_monitor_fails :: Device where
  "second_monitor_fails =
     \<lparr>next_handle = 1,
      results = [S_OK, S_OK, S_OK, S_OK, S_OK, S_OK, S_OK, S_OK, S_OK, S_OK,
                 S_OK, S_OK, E_FAIL]\<rparr>"

definition every_monitor_fails :: Device where
  "every_monitor_fails = \<lparr>next_handle = 1, results = [S_OK, E_FAIL, E_FAIL, E_FAIL]\<rparr>"

definition capturing_manager :: CaptureManager where
  "capturing_manager = fst (snd (Start second_monitor_fails three_monitor_manager))"

definition manager_after_failed_start :: CaptureManager where
  "manager_after_failed_start = fst (snd (Start every_monitor_fails three_monitor_manager))"








section \<open>Properties\<close>

subsection \<open>The example runs, evaluated\<close>

lemmas device_defs =
  create_object_def fresh_object_def next_result_def CreateTexture2D_def
  S_OK_def E_FAIL_def DXGI_ERROR_DEVICE_REMOVED_def DXGI_ERROR_DEVICE_RESET_def
  FAILED_def SUCCEEDED_def example_device_def all_shader_files_def example_frame_def Let_def

lemmas initialize_defs =
  Initialize_def LoadVertexShader_def LoadPixelShader_def CreateConstantBuffer_def
  CreateFullscreenQuad_def ShaderPipeline_new_def

lemmas process_defs =
  Process_def CreateIntermediateTextures_def UpdateParameters_def Process_passes_def
  RenderPass_def

lemma ready_pipeline_eq:
  "ready_pipeline =
     \<lparr>m_device = Some 0, m_ready = True, m_params = TransformParams_default,
      m_paramsDirty = True, m_vertexShader = Some 1, m_contrastShader = Some 3,
      m_invertShader = Some 4, m_edgeShader = Some 5, m_passthroughShader = Some 6,
      m_inputLayout = Some 2, m_constantBuffer = Some 7,
      m_intermediateTexture = None, m_intermediateRTV = None, m_intermediateSRV = None,
      m_outputTexture = None, m_outputRTV = None, m_outputSRV = None,
      m_outputWidth = 0, m_outputHeight = 0,
      m_vertexBuffer = Some 8, m_indexBuffer = Some 9, m_sampler = Some 10\<rparr>"
  by (simp add: ready_pipeline_def initialize_defs device_defs)

lemma ready_device_eq: "ready_device = \<lparr>next_handle = 11, results = []\<rparr>"
  by (simp add: ready_device_def initialize_defs device_defs)

lemma unready_pipeline_not_ready: "\<not> m_ready unready_pipeline"
  by (simp add: unready_pipeline_def initialize_defs device_defs)

lemma sized_pipeline_eq:
  "sized_pipeline =
     \<lparr>m_device = Some 0, m_ready = True, m_params = TransformParams_default,
      m_paramsDirty = False, m_vertexShader = Some 1, m_contrastShader = Some 3,
      m_invertShader = Some 4, m_edgeShader = Some 5, m_passthroughShader = Some 6,
      m_inputLayout = Some 2, m_constantBuffer = Some 7,
      m_intermediateTexture = Some \<lparr>tex_handle = 11, Width = 1920, Height = 1080\<rparr>,
      m_intermediateRTV = Some 12, m_intermediateSRV = Some 13,
      m_outputTexture = Some \<lparr>tex_handle = 14, Width = 1920, Height = 1080\<rparr>,
      m_outputRTV = Some 15, m_outputSRV = Some 16,
      m_outputWidth = 1920, m_outputHeight = 1080,
      m_vertexBuffer = Some 8, m_indexBuffer = Some 9, m_sampler = Some 10\<rparr>"
  by (simp add: sized_pipeline_def ready_pipeline_eq ready_device_eq process_defs device_defs
      TransformParams_default_def)


lemmas capture_defs =
  Start_def IsGraphicsCaptureAvailable_def CreateCaptureForMonitor_def CreateWinRTDevice_def
  three_monitor_manager_def three_monitors_def SetFrameCallback_def EnumerateMonitors_def
  CaptureManager_new_def second_monitor_fails_def every_monitor_fails_def

lemma Start_second_monitor_fails:
  "Start second_monitor_fails three_monitor_manager =
     (True,
      \<lparr>m_captures =
         [\<lparr>monitor = 101, item = Some 2, framePool = Some 3, session = Some 5,
           winrtDevice = Some 1, frameArrivedToken = 4\<rparr>,
          \<lparr>monitor = 103, item = Some 8, framePool = Some 9, session = Some 11,
           winrtDevice = Some 7, frameArrivedToken = 10\<rparr>],
       m_monitors = three_monitors, m_frameCallback = Some 7, m_running = True\<rparr>,
      \<lparr>next_handle = 12, results = []\<rparr>,
      [FrameArrivedSubscribed (Some 3) 4, StartCaptureCall (Some 5), LogCreatedCapture 101,
       LogFailedCapture 102,
       FrameArrivedSubscribed (Some 9) 10, StartCaptureCall (Some 11), LogCreatedCapture 103])"
  by (simp add: capture_defs device_defs)

lemma Start_every_monitor_fails:
  "Start every_monitor_fails three_monitor_manager =
     (False,
      \<lparr>m_captures = [], m_monitors = three_monitors, m_frameCallback = Some 7,
       m_running = True\<rparr>,
      \<lparr>next_handle = 1, results = []\<rparr>,
      [LogFailedCapture 101, LogFailedCapture 102, LogFailedCapture 103])"
  by (simp add: capture_defs device_defs)








subsection \<open>ShaderPipeline: the parameter setters\<close>










subsection \<open>ShaderPipeline: processing a frame\<close>

text \<open>
  Claim C4: for every input texture (and for the null pointer), \<^verbatim>\<open>Process\<close> on a pipeline
  that is not ready returns its input, makes no call at all, so renders no pass, and leaves
  the pipeline and the device as they are.
\<close>

theorem Process_not_ready_returns_input:
  "\<not> m_ready s \<Longrightarrow> Process d s input = (input, s, d, [])"
  by (simp add: Process_def split: option.splits)

theorem Process_not_ready_returns_input_witness:
  "\<not> m_ready unready_pipeline \<and>
   Process example_device unready_pipeline (Some example_frame) =
     (Some example_frame, unready_pipeline, example_device, [])"
proof -
  have h: "\<not> m_ready unready_pipeline"
    by (rule unready_pipeline_not_ready)
  show ?thesis
    using h Process_not_ready_returns_input [OF h, of example_device "Some example_frame"]
    by simp
qed




















text \<open>
  Claim C1 says that the passthrough copy runs exactly when neither the inversion nor the
  edge pass ran. The code decides the copy by \<^verbatim>\<open>currentInput == m_intermediateSRV.Get()\<close>,
  and the edge pass does not advance \<^verbatim>\<open>currentInput\<close>. On a ready pipeline with the edge
  shader loaded, \<^verbatim>\<open>invertMode\<close> 0 and \<^verbatim>\<open>edgeStrength\<close> one half, a frame is rendered by
  three passes: the base adjustment from the input view 17 into the intermediate target 12,
  the edge pass from the intermediate view 13 into the output target 15, and then the
  passthrough copy from the same view 13 into the same target 15, which replaces what the
  edge pass drew. The output texture 14 is returned.
\<close>

theorem Process_edge_without_invert_runs_passthrough:
  "m_ready ready_pipeline \<and> m_edgeShader ready_pipeline \<noteq> None \<and>
   invertMode (m_params (SetEdgeStrength ready_pipeline (Fin (1 / 2)))) = 0 \<and>
   Process ready_device (SetEdgeStrength ready_pipeline (Fin (1 / 2))) (Some example_frame) =
     (Some \<lparr>tex_handle = 14, Width = 1920, Height = 1080\<rparr>,
      sized_pipeline\<lparr>m_params := TransformParams_default\<lparr>edgeStrength := Fin (1 / 2)\<rparr>\<rparr>,
      \<lparr>next_handle = 18, results = []\<rparr>,
      [CreateIntermediateTexturesCall 1920 1080,
       ParamsUploaded (TransformParams_default\<lparr>edgeStrength := Fin (1 / 2)\<rparr>),
       RenderPassCall (Some 17) (Some 12) ContrastShader 1920 1080,
       RenderPassCall (Some 13) (Some 15) EdgeShader 1920 1080,
       RenderPassCall (Some 13) (Some 15) PassthroughShader 1920 1080])"
  by (simp add: ready_pipeline_eq ready_device_eq sized_pipeline_eq process_defs device_defs
      TransformParams_default_def SetEdgeStrength_def std_clamp_def)

theorem Process_edge_without_invert_runs_passthrough_witness:
  "passes (snd (snd (snd (Process ready_device (SetEdgeStrength ready_pipeline (Fin (1 / 2)))
                            (Some example_frame))))) =
     [ContrastShader, EdgeShader, PassthroughShader]"
  using Process_edge_without_invert_runs_passthrough by simp

subsection \<open>CaptureManager\<close>

lemma created_monitors_append:
  "created_monitors (xs @ ys) = created_monitors xs @ created_monitors ys"
  by (induction xs rule: created_monitors.induct) simp_all

lemma tried_monitors_append:
  "tried_monitors (xs @ ys) = tried_monitors xs @ tried_monitors ys"
  by (induction xs rule: tried_monitors.induct) simp_all

lemma CreateCaptureForMonitor_members:
  "CreateCaptureForMonitor d s mon = (ok, s', d', calls) \<Longrightarrow>
     m_running s' = m_running s \<and> m_frameCallback s' = m_frameCallback s \<and>
     m_monitors s' = m_monitors s"
  unfolding CreateCaptureForMonitor_def Let_def
  by (auto split: prod.splits if_splits)

lemma CreateCaptureForMonitor_failed:
  "CreateCaptureForMonitor d s mon = (False, s', d', calls) \<Longrightarrow>
     s' = s \<and> created_monitors calls = [] \<and> tried_monitors calls = []"
  unfolding CreateCaptureForMonitor_def Let_def
  by (auto split: prod.splits if_splits)

lemma CreateCaptureForMonitor_created:
  "CreateCaptureForMonitor d s mon = (True, s', d', calls) \<Longrightarrow>
     map monitor (m_captures s') = map monitor (m_captures s) @ [mon] \<and>
     created_monitors calls = [mon] \<and> tried_monitors calls = [mon]"
  unfolding CreateCaptureForMonitor_def Let_def
  by (auto split: prod.splits if_splits)

lemma create_captures_result:
  "create_captures d s ms = (s', d', calls) \<Longrightarrow>
     map monitor (m_captures s') = map monitor (m_captures s) @ created_monitors calls \<and>
     tried_monitors calls = map handle ms \<and>
     m_running s' = m_running s \<and> m_frameCallback s' = m_frameCallback s \<and>
     m_monitors s' = m_monitors s"
proof (induction ms arbitrary: d s s' d' calls)
  case Nil
  then show ?case by simp
next
  case (Cons m ms)
  obtain ok s1 d1 calls1 where c: "CreateCaptureForMonitor d s (handle m) = (ok, s1, d1, calls1)"
    using prod_cases4 by blast
  obtain s2 d2 calls2 where r: "create_captures d1 s1 ms = (s2, d2, calls2)"
    using prod_cases3 by blast
  have eq: "s' = s2 \<and> d' = d2 \<and>
            calls = calls1 @ (if \<not> ok then [LogFailedCapture (handle m)] else []) @ calls2"
    using Cons.prems c r by simp
  note ih = Cons.IH [OF r]
  note mem = CreateCaptureForMonitor_members [OF c]
  show ?case
  proof (cases ok)
    case True
    with c have "map monitor (m_captures s1) = map monitor (m_captures s) @ [handle m] \<and>
       created_monitors calls1 = [handle m] \<and> tried_monitors calls1 = [handle m]"
      by (simp add: CreateCaptureForMonitor_created)
    with ih mem eq True show ?thesis
      by (simp add: created_monitors_append tried_monitors_append)
  next
    case False
    with c have "s1 = s \<and> created_monitors calls1 = [] \<and> tried_monitors calls1 = []"
      by (simp add: CreateCaptureForMonitor_failed)
    with ih mem eq False show ?thesis
      by (simp add: created_monitors_append tried_monitors_append)
  qed
qed

lemma Start_not_running:
  assumes "\<not> m_running s" and "IsGraphicsCaptureAvailable d = (True, d1)"
    and "create_captures d1 s (m_monitors s) = (s2, d2, calls)"
  shows "Start d s = (m_captures s2 \<noteq> [], s2\<lparr>m_running := True\<rparr>, d2, calls)"
  using assms by (simp add: Start_def)

text \<open>
  Claim C5, as stated, does not hold on a manager that is already running: \<^verbatim>\<open>Start\<close> then
  returns true at once and creates nothing. After a \<^verbatim>\<open>Start\<close> in which the capture of each
  of the three monitors failed (it returned false and left \<^verbatim>\<open>m_running\<close> set), a second
  \<^verbatim>\<open>Start\<close> returns true although no capture session exists and none was created by
  either call.
\<close>

theorem Start_succeeds_without_any_session:
  "\<not> fst (Start every_monitor_fails three_monitor_manager) \<and>
   fst (Start example_device manager_after_failed_start) \<and>
   m_captures (fst (snd (Start example_device manager_after_failed_start))) = [] \<and>
   created_monitors
     (snd (snd (snd (Start every_monitor_fails three_monitor_manager))) @
      snd (snd (snd (Start example_device manager_after_failed_start)))) = []"
  by (simp add: manager_after_failed_start_def Start_every_monitor_fails)
     (simp add: Start_def)

text \<open>
  Claim C5, amended: on a manager that is already running, \<^verbatim>\<open>Start\<close> returns true at once
  and creates nothing. On a manager that is not running and holds no capture (as after
  construction and after every \<^verbatim>\<open>Stop\<close>), \<^verbatim>\<open>Start\<close> returns true if and only if it
  created the capture session of at least one monitor. Where the capture API is available,
  every monitor of \<^verbatim>\<open>m_monitors\<close> is tried in order, whatever happened to the monitors
  before it, the captures held afterwards are those of the monitors whose session was
  created, and after a successful \<^verbatim>\<open>Start\<close> a frame that arrives with a texture is passed
  to the registered callback.
\<close>

theorem Start_succeeds_iff_session_created:
  "case Start d s of (ok, s', d', calls) \<Rightarrow>
     (if m_running s then ok \<and> s' = s \<and> d' = d \<and> calls = []
      else (m_captures s = [] \<longrightarrow> ok = (created_monitors calls \<noteq> [])) \<and>
           map monitor (m_captures s') = map monitor (m_captures s) @ created_monitors calls \<and>
           (fst (IsGraphicsCaptureAvailable d) \<longrightarrow>
              tried_monitors calls = map handle (m_monitors s)) \<and>
           (ok \<longrightarrow> OnFrameArrived s' sender (FrameTexture t) =
                     (case m_frameCallback s of
                        Some callback \<Rightarrow> [(callback, t)]
                      | None \<Rightarrow> [])))"
proof (cases "m_running s")
  case True
  then show ?thesis by (simp add: Start_def)
next
  case False
  obtain available d1 where a: "IsGraphicsCaptureAvailable d = (available, d1)"
    by fastforce
  show ?thesis
  proof (cases available)
    case unavailable: False
    then show ?thesis using False a by (simp add: Start_def)
  next
    case True
    obtain s2 d2 calls where r: "create_captures d1 s (m_monitors s) = (s2, d2, calls)"
      using prod_cases3 by blast
    note res = create_captures_result [OF r]
    have run: "Start d s = (m_captures s2 \<noteq> [], s2\<lparr>m_running := True\<rparr>, d2, calls)"
      using False a True r by (simp add: Start_not_running)
    have nonempty: "m_captures s = [] \<Longrightarrow> (m_captures s2 \<noteq> []) = (created_monitors calls \<noteq> [])"
      using res by (metis append_Nil list.map_disc_iff)
    show ?thesis
      using False a True res nonempty
      by (simp add: run OnFrameArrived_def)
  qed
qed

text \<open>Three monitors, the capture item of the second cannot be created: \<^verbatim>\<open>Start\<close> returns
  true, all three monitors are tried, the first and the third are captured, and a frame
  reaches the callback.\<close>

theorem Start_succeeds_iff_session_created_witness:
  "\<not> m_running three_monitor_manager \<and> m_captures three_monitor_manager = [] \<and>
   fst (IsGraphicsCaptureAvailable second_monitor_fails) \<and>
   fst (Start second_monitor_fails three_monitor_manager) \<and>
   created_monitors (snd (snd (snd (Start second_monitor_fails three_monitor_manager))))
     = [101, 103] \<and>
   tried_monitors (snd (snd (snd (Start second_monitor_fails three_monitor_manager))))
     = [101, 102, 103] \<and>
   map monitor (m_captures capturing_manager) = [101, 103] \<and>
   OnFrameArrived capturing_manager (Some 3) (FrameTexture example_frame)
     = [(7, example_frame)]"
proof -
  have h: "\<not> m_running three_monitor_manager"
    by (simp add: capture_defs)
  have e: "m_captures three_monitor_manager = []"
    by (simp add: capture_defs)
  have a: "fst (IsGraphicsCaptureAvailable second_monitor_fails)"
    by (simp add: capture_defs device_defs)
  note run = Start_succeeds_iff_session_created
    [where d = second_monitor_fails and s = three_monitor_manager and sender = "Some 3"
       and t = example_frame,
     unfolded Start_second_monitor_fails prod.case if_not_P [OF h]]
  show ?thesis
    using h e a run
    by (simp add: capturing_manager_def Start_second_monitor_fails OnFrameArrived_def)
qed

text \<open>
  Claim C10: in every call of \<^verbatim>\<open>Start\<close> in which the probe of the capture API succeeds,
  \<^verbatim>\<open>m_running\<close> is true afterwards, also when the call returns false, which it does when
  the manager was not running and the capture of every monitor failed; \<^verbatim>\<open>IsRunning\<close> then
  reports true, and any further \<^verbatim>\<open>Start\<close> returns true at once, changes nothing and makes
  no call, so tries no monitor.
\<close>

theorem Start_leaves_running_set_when_it_fails:
  assumes "fst (IsGraphicsCaptureAvailable d)"
  shows "case Start d s of (ok, s', d', calls) \<Rightarrow>
           m_running s' \<and> IsRunning s' \<and> Start d2 s' = (True, s', d2, []) \<and>
           (\<not> ok \<longrightarrow> \<not> m_running s \<and> m_captures s' = []) \<and>
           (\<not> m_running s \<and> m_captures s = [] \<and> created_monitors calls = [] \<longrightarrow> \<not> ok)"
proof (cases "m_running s")
  case True
  then show ?thesis by (simp add: Start_def IsRunning_def)
next
  case False
  obtain d1 where a: "IsGraphicsCaptureAvailable d = (True, d1)"
    using assms by (cases "IsGraphicsCaptureAvailable d") auto
  obtain s2 d3 calls where r: "create_captures d1 s (m_monitors s) = (s2, d3, calls)"
    using prod_cases3 by blast
  note res = create_captures_result [OF r]
  have run: "Start d s = (m_captures s2 \<noteq> [], s2\<lparr>m_running := True\<rparr>, d3, calls)"
    using False a r by (rule Start_not_running)
  have again: "Start d2 (s2\<lparr>m_running := True\<rparr>) = (True, s2\<lparr>m_running := True\<rparr>, d2, [])"
    by (simp add: Start_def)
  have none: "m_captures s = [] \<Longrightarrow> created_monitors calls = [] \<Longrightarrow> m_captures s2 = []"
    using res by simp
  show ?thesis
    using False again none by (auto simp: run IsRunning_def)
qed

theorem Start_leaves_running_set_when_it_fails_witness:
  "fst (IsGraphicsCaptureAvailable every_monitor_fails) \<and>
   \<not> m_running three_monitor_manager \<and>
   tried_monitors (snd (snd (snd (Start every_monitor_fails three_monitor_manager))))
     = [101, 102, 103] \<and>
   \<not> fst (Start every_monitor_fails three_monitor_manager) \<and>
   IsRunning manager_after_failed_start \<and>
   Start second_monitor_fails manager_after_failed_start =
     (True, manager_after_failed_start, second_monitor_fails, [])"
proof -
  have a: "fst (IsGraphicsCaptureAvailable every_monitor_fails)"
    by (simp add: capture_defs device_defs)
  have h: "\<not> m_running three_monitor_manager"
    by (simp add: capture_defs)
  note run = Start_leaves_running_set_when_it_fails
    [OF a, where s = three_monitor_manager and ?d2.0 = second_monitor_fails,
     unfolded Start_every_monitor_fails prod.case]
  show ?thesis
    using a h run
    by (simp add: manager_after_failed_start_def Start_every_monitor_fails)
qed




subsection \<open>OverlayWindow\<close>





















subsection \<open>The colour inversion pixel shader\<close>

lemma round24_error: "\<bar>round24 x - x\<bar> \<le> 1 / 33554432"
proof -
  have "\<bar>real_of_int (round (x * 16777216)) - x * 16777216\<bar> \<le> 1 / 2"
    by (rule of_int_round_abs_le)
  then show ?thesis unfolding round24_def by (simp add: field_simps abs_le_iff)
qed

lemma invert_twice_channel:
  fixes rnd :: "real \<Rightarrow> real"
  assumes rnd: "\<forall>x. \<bar>x\<bar> \<le> 2 \<longrightarrow> \<bar>rnd x - x\<bar> \<le> e" and e: "e \<le> 1"
    and c: "0 \<le> c" "c \<le> 1"
  shows "\<bar>rnd (1 - rnd (1 - c)) - c\<bar> \<le> 2 * e"
proof -
  have 1: "\<bar>rnd (1 - c) - (1 - c)\<bar> \<le> e"
  proof -
    have "\<bar>1 - c\<bar> \<le> 2" using c by simp
    then show ?thesis using rnd by blast
  qed
  then have "\<bar>1 - rnd (1 - c)\<bar> \<le> 2"
    using e c by (simp add: abs_le_iff)
  then have 2: "\<bar>rnd (1 - rnd (1 - c)) - (1 - rnd (1 - c))\<bar> \<le> e"
    using rnd by simp
  show ?thesis using 1 2 by (simp add: abs_le_iff)
qed

text \<open>
  Claim C9: with \<^verbatim>\<open>invertMode\<close> 1 the shader maps each colour channel \<open>c\<close> to \<open>1 - c\<close> and
  keeps alpha. In exact arithmetic, applying it twice gives back every pixel. In rounded
  arithmetic, where each result in [-2, 2] is rounded with an error of at most \<open>e\<close> (for
  binary32, \<open>e = 2\<^sup>-\<^sup>2\<^sup>4\<close>), applying it twice to a pixel with channels in [0, 1], as every
  texel of a UNORM texture has, gives a pixel that differs from the original by at most
  \<open>2 e\<close> in each channel.
\<close>

theorem invert_full_twice_restores_pixel:
  assumes "\<forall>x. \<bar>x\<bar> \<le> 2 \<longrightarrow> \<bar>rnd x - x\<bar> \<le> e" and "e \<le> 1"
    and "0 \<le> r \<and> r \<le> 1" and "0 \<le> g \<and> g \<le> 1" and "0 \<le> b \<and> b \<le> 1"
  shows "channel_distance (invert_main rnd 1 (invert_main rnd 1 (r, g, b, a))) (r, g, b, a)
           \<le> 2 * e \<and>
         invert_main (\<lambda>x. x) 1 (invert_main (\<lambda>x. x) 1 color) = color"
proof -
  have nonneg: "0 \<le> e"
    using assms(1) by (metis abs_ge_zero abs_zero order_trans zero_le_numeral)
  have "\<bar>rnd (1 - rnd (1 - r)) - r\<bar> \<le> 2 * e" "\<bar>rnd (1 - rnd (1 - g)) - g\<bar> \<le> 2 * e"
    "\<bar>rnd (1 - rnd (1 - b)) - b\<bar> \<le> 2 * e"
    using assms by (simp_all add: invert_twice_channel)
  then have "channel_distance (invert_main rnd 1 (invert_main rnd 1 (r, g, b, a))) (r, g, b, a)
      \<le> 2 * e"
    using nonneg by (simp add: invert_main_def channel_distance_def)
  moreover have "invert_main (\<lambda>x. x) 1 (invert_main (\<lambda>x. x) 1 color) = color"
    by (cases color) (simp add: invert_main_def)
  ultimately show ?thesis by simp
qed

text \<open>Rounding to multiples of \<open>2\<^sup>-\<^sup>2\<^sup>4\<close> errs by at most \<open>2\<^sup>-\<^sup>2\<^sup>5\<close> everywhere; the pixel
  (1/3, 1/2, 1, 1) is not a fixed point of the rounded inversion in its first channel.\<close>

theorem invert_full_twice_restores_pixel_witness:
  "(\<forall>x. \<bar>round24 x - x\<bar> \<le> 1 / 16777216) \<and>
   channel_distance (invert_main round24 1 (invert_main round24 1 (1 / 3, 1 / 2, 1, 1)))
     (1 / 3, 1 / 2, 1, 1) \<le> 2 * (1 / 16777216) \<and>
   invert_main (\<lambda>x. x) 1 (invert_main (\<lambda>x. x) 1 (1 / 3, 1 / 2, 1, 1)) = (1 / 3, 1 / 2, 1, 1) \<and>
   invert_main round24 1 (1 / 2, 1 / 4, 0, 1) = (1 / 2, 3 / 4, 1, 1)"
proof -
  have all: "\<forall>x. \<bar>round24 x - x\<bar> \<le> 1 / 16777216"
  proof
    fix x :: real
    have "\<bar>round24 x - x\<bar> \<le> 1 / 33554432" by (rule round24_error)
    then show "\<bar>round24 x - x\<bar> \<le> 1 / 16777216" by simp
  qed
  then have h: "\<forall>x. \<bar>x\<bar> \<le> 2 \<longrightarrow> \<bar>round24 x - x\<bar> \<le> 1 / 16777216"
    by simp
  have v: "invert_main round24 1 (1 / 2, 1 / 4, 0, 1) = (1 / 2, 3 / 4, 1, 1)"
    by (simp add: invert_main_def round24_def)
  show ?thesis
    using all v
      invert_full_twice_restores_pixel [OF h, of "1 / 3" "1 / 2" 1 1 "(1 / 3, 1 / 2, 1, 1)"]
    by simp
qed

end
